theory Spec2Isabelle
  imports Main "HOL-Library.Char_ord" "HOL-Library.List_Lexorder"
begin

section \<open>The game catalogue of \<^verbatim>\<open>src/server.js\<close>\<close>

text \<open>
  The server keeps two SQLite tables, \<^verbatim>\<open>games\<close> and \<^verbatim>\<open>game_gamers\<close>, behind one
  connection, and answers six routes. Each route is modelled as a function from the
  connection (and the request's fields) to the response and the connection afterwards.
  A request runs alone: the interleaving of two requests on the shared connection is
  outside the model.

  Strings are lists of code units below 256. Numbers are mathematical integers; the
  column \<^verbatim>\<open>created_at\<close> of \<^verbatim>\<open>games\<close> is never read by a route and is left out.
\<close>

subsection \<open>JavaScript string helpers\<close>

text \<open>
  \<^verbatim>\<open>String.prototype.trim\<close> removes white space and line terminators at both ends;
  below 256 these are the code units 9 to 13, 32 and 160.
\<close>

definition is_space :: "char \<Rightarrow> bool" where
  "is_space c = (of_char c \<in> {9, 10, 11, 12, 13, 32, 160 :: nat})"

definition trim :: "string \<Rightarrow> string" where
  "trim s = rev (dropWhile is_space (rev (dropWhile is_space s)))"

text \<open>\<^verbatim>\<open>s.split(',')\<close>: the pieces between commas; the empty string gives one empty piece.\<close>

fun split_comma :: "string \<Rightarrow> string list" where
  "split_comma [] = [[]]"
| "split_comma (c # cs) =
     (if c = CHR '','' then [] # split_comma cs
      else (case split_comma cs of
              [] \<Rightarrow> [[c]]
            | piece # pieces \<Rightarrow> (c # piece) # pieces))"

text \<open>\<^verbatim>\<open>s.split(',').map(name => name.trim()).filter(name => name)\<close>, used by two routes.\<close>

definition split_names :: "string \<Rightarrow> string list" where
  "split_names s = filter (\<lambda>name. name \<noteq> []) (map trim (split_comma s))"

text \<open>The separator of \<^verbatim>\<open>GROUP_CONCAT\<close> is a comma.\<close>

fun join_comma :: "string list \<Rightarrow> string" where
  "join_comma [] = []"
| "join_comma [x] = x"
| "join_comma (x # y # ys) = x @ CHR '','' # join_comma (y # ys)"

subsection \<open>Tables and the connection\<close>

record games_row =
  g_id :: int
  g_game :: string
  g_players :: int

record game_gamers_row =
  gg_id :: int
  gg_game_id :: int
  gg_gamer_name :: string

text \<open>
  Both tables are \<^verbatim>\<open>AUTOINCREMENT\<close>: SQLite keeps the largest row id ever used in
  \<^verbatim>\<open>sqlite_sequence\<close>, inside the database, so a rollback restores it with the rows.
  Rows are kept in insertion order.
\<close>

record tables =
  games :: "games_row list"
  game_gamers :: "game_gamers_row list"
  games_seq :: int
  game_gamers_seq :: int

text \<open>
  Every statement handed to the connection is recorded, failed ones too, so that a
  theorem can say which statements a route issued and in which order.
\<close>

datatype stmt =
    Begin_Transaction
  | Commit
  | Rollback
  | Insert_Game string int
  | Insert_Gamer int string
  | Delete_Gamers int
  | Delete_Game int
  | Select_Gamer int string
  | Delete_Gamer int string
  | Select_Games
  | Select_Playable "string list"

text \<open>
  \<open>saved\<close> is the content at \<^verbatim>\<open>BEGIN TRANSACTION\<close> while a transaction is open. The
  program never passes a callback to \<^verbatim>\<open>BEGIN\<close>, \<^verbatim>\<open>COMMIT\<close> or \<^verbatim>\<open>ROLLBACK\<close>: a
  \<^verbatim>\<open>BEGIN\<close> inside a transaction and a \<^verbatim>\<open>ROLLBACK\<close> outside one are SQLite errors that
  change nothing, and nobody sees them.
\<close>

record connection =
  content :: tables
  saved :: "tables option"
  issued :: "stmt list"

definition record_stmt :: "stmt \<Rightarrow> connection \<Rightarrow> connection" where
  "record_stmt q db = db\<lparr>issued := issued db @ [q]\<rparr>"

definition run_begin :: "connection \<Rightarrow> connection" where
  "run_begin db =
     (case saved db of
        None \<Rightarrow> (record_stmt Begin_Transaction db)\<lparr>saved := Some (content db)\<rparr>
      | Some _ \<Rightarrow> record_stmt Begin_Transaction db)"

definition run_commit :: "connection \<Rightarrow> connection" where
  "run_commit db = (record_stmt Commit db)\<lparr>saved := None\<rparr>"

definition run_rollback :: "connection \<Rightarrow> connection" where
  "run_rollback db =
     (case saved db of
        None \<Rightarrow> record_stmt Rollback db
      | Some old \<Rightarrow> (record_stmt Rollback db)\<lparr>content := old, saved := None\<rparr>)"

text \<open>
  The row id of an \<^verbatim>\<open>AUTOINCREMENT\<close> insert is one more than the largest row id the
  table ever had.
\<close>

definition next_id :: "int \<Rightarrow> int list \<Rightarrow> int" where
  "next_id seq ids = foldr max ids seq + 1"

text \<open>
  A statement with a callback can fail for reasons outside the program (a full disk, a
  locked file): the argument \<open>err\<close> says whether the callback receives an error. A failed
  statement changes no row. The foreign key of \<^verbatim>\<open>game_gamers\<close> is declared, but SQLite
  enforces foreign keys only after \<^verbatim>\<open>PRAGMA foreign_keys = ON\<close>, which the program never
  issues: an insert into \<^verbatim>\<open>game_gamers\<close> does not look at \<^verbatim>\<open>games\<close>.
\<close>

definition insert_game :: "bool \<Rightarrow> string \<Rightarrow> int \<Rightarrow> connection \<Rightarrow> int option \<times> connection" where
  "insert_game err name n db =
     (if err then (None, record_stmt (Insert_Game name n) db)
      else
        (let t = content db;
             lastID = next_id (games_seq t) (map g_id (games t))
         in (Some lastID,
             (record_stmt (Insert_Game name n) db)
               \<lparr>content := t\<lparr>games := games t @ [\<lparr>g_id = lastID, g_game = name, g_players = n\<rparr>],
                               games_seq := lastID\<rparr>\<rparr>)))"

definition insert_gamer :: "bool \<Rightarrow> int \<Rightarrow> string \<Rightarrow> connection \<Rightarrow> int option \<times> connection" where
  "insert_gamer err gameId name db =
     (if err then (None, record_stmt (Insert_Gamer gameId name) db)
      else
        (let t = content db;
             lastID = next_id (game_gamers_seq t) (map gg_id (game_gamers t))
         in (Some lastID,
             (record_stmt (Insert_Gamer gameId name) db)
               \<lparr>content := t\<lparr>game_gamers := game_gamers t @
                                 [\<lparr>gg_id = lastID, gg_game_id = gameId, gg_gamer_name = name\<rparr>],
                               game_gamers_seq := lastID\<rparr>\<rparr>)))"

text \<open>A delete answers with \<^verbatim>\<open>this.changes\<close>, the number of rows it removed.\<close>

definition delete_gamers :: "bool \<Rightarrow> int \<Rightarrow> connection \<Rightarrow> nat option \<times> connection" where
  "delete_gamers err gameId db =
     (if err then (None, record_stmt (Delete_Gamers gameId) db)
      else
        (let t = content db
         in (Some (length (filter (\<lambda>r. gg_game_id r = gameId) (game_gamers t))),
             (record_stmt (Delete_Gamers gameId) db)
               \<lparr>content := t\<lparr>game_gamers := filter (\<lambda>r. gg_game_id r \<noteq> gameId) (game_gamers t)\<rparr>\<rparr>)))"

definition delete_game_row :: "bool \<Rightarrow> int \<Rightarrow> connection \<Rightarrow> nat option \<times> connection" where
  "delete_game_row err gameId db =
     (if err then (None, record_stmt (Delete_Game gameId) db)
      else
        (let t = content db
         in (Some (length (filter (\<lambda>r. g_id r = gameId) (games t))),
             (record_stmt (Delete_Game gameId) db)
               \<lparr>content := t\<lparr>games := filter (\<lambda>r. g_id r \<noteq> gameId) (games t)\<rparr>\<rparr>)))"

definition owns :: "int \<Rightarrow> string \<Rightarrow> game_gamers_row \<Rightarrow> bool" where
  "owns gameId name r = (gg_game_id r = gameId \<and> gg_gamer_name r = name)"

definition delete_gamer :: "bool \<Rightarrow> int \<Rightarrow> string \<Rightarrow> connection \<Rightarrow> nat option \<times> connection" where
  "delete_gamer err gameId name db =
     (if err then (None, record_stmt (Delete_Gamer gameId name) db)
      else
        (let t = content db
         in (Some (length (filter (owns gameId name) (game_gamers t))),
             (record_stmt (Delete_Gamer gameId name) db)
               \<lparr>content := t\<lparr>game_gamers := filter (\<lambda>r. \<not> owns gameId name r) (game_gamers t)\<rparr>\<rparr>)))"

text \<open>\<^verbatim>\<open>db.get\<close> answers with the first matching row, or with \<^verbatim>\<open>undefined\<close>.\<close>

definition select_gamer ::
  "bool \<Rightarrow> int \<Rightarrow> string \<Rightarrow> connection \<Rightarrow> int option option \<times> connection" where
  "select_gamer err gameId name db =
     (if err then (None, record_stmt (Select_Gamer gameId name) db)
      else (Some (case filter (owns gameId name) (game_gamers (content db)) of
                    [] \<Rightarrow> None
                  | r # _ \<Rightarrow> Some (gg_id r)),
            record_stmt (Select_Gamer gameId name) db))"

subsection \<open>The two queries\<close>

text \<open>
  \<^verbatim>\<open>GROUP_CONCAT\<close> joins the values of a group that are not \<^verbatim>\<open>NULL\<close> and is \<^verbatim>\<open>NULL\<close> when
  there is none, which is the case of a game the \<^verbatim>\<open>LEFT JOIN\<close> pairs with no owner.
  SQL leaves the order inside the list open; the model takes the order of insertion.
\<close>

definition group_concat :: "string list \<Rightarrow> string option" where
  "group_concat vs = (case vs of [] \<Rightarrow> None | _ # _ \<Rightarrow> Some (join_comma vs))"

text \<open>\<^verbatim>\<open>DISTINCT\<close> inside an aggregate: each value once, at its first place.\<close>

definition sql_distinct :: "string list \<Rightarrow> string list" where
  "sql_distinct vs = rev (remdups (rev vs))"

definition gamer_names :: "tables \<Rightarrow> int \<Rightarrow> string list" where
  "gamer_names t gameId =
     map gg_gamer_name (filter (\<lambda>r. gg_game_id r = gameId) (game_gamers t))"

record sql_row =
  r_id :: int
  r_game :: string
  r_players :: int
  r_gamer_list :: "string option"
  r_owners_in_group :: "string option"

text \<open>
  \<^verbatim>\<open>getGamesWithGamers\<close> with its default arguments, the only way it is called. Row ids
  are a primary key, so each group of \<^verbatim>\<open>GROUP BY g.id, g.game, g.players\<close> is one game.
  \<^verbatim>\<open>ORDER BY g.game ASC\<close> compares the names unit by unit; rows of equal name stay in
  table order. The query has no column \<^verbatim>\<open>owners_in_group\<close>.
\<close>

definition getGamesWithGamers :: "tables \<Rightarrow> sql_row list" where
  "getGamesWithGamers t =
     map (\<lambda>g. \<lparr>r_id = g_id g, r_game = g_game g, r_players = g_players g,
               r_gamer_list = group_concat (gamer_names t (g_id g)),
               r_owners_in_group = None\<rparr>)
       (sort_key g_game (games t))"

text \<open>
  \<^verbatim>\<open>getPlayableGames\<close>. The last parameter bound is \<^verbatim>\<open>playerNames.length\<close>, and the
  \<^verbatim>\<open>HAVING\<close> clause keeps a game when \<^verbatim>\<open>g.players >= ?\<close> and \<^verbatim>\<open>owners_in_group\<close> is not
  \<^verbatim>\<open>NULL\<close>.
\<close>

definition owners_in_group_of :: "tables \<Rightarrow> string list \<Rightarrow> int \<Rightarrow> string option" where
  "owners_in_group_of t playerNames gameId =
     group_concat (sql_distinct (filter (\<lambda>name. name \<in> set playerNames) (gamer_names t gameId)))"

definition having_playable :: "tables \<Rightarrow> string list \<Rightarrow> games_row \<Rightarrow> bool" where
  "having_playable t playerNames g =
     (g_players g \<ge> int (length playerNames) \<and> owners_in_group_of t playerNames (g_id g) \<noteq> None)"

definition getPlayableGames :: "tables \<Rightarrow> string list \<Rightarrow> sql_row list" where
  "getPlayableGames t playerNames =
     map (\<lambda>g. \<lparr>r_id = g_id g, r_game = g_game g, r_players = g_players g,
               r_gamer_list = group_concat (sql_distinct (gamer_names t (g_id g))),
               r_owners_in_group = owners_in_group_of t playerNames (g_id g)\<rparr>)
       (sort_key g_game (filter (having_playable t playerNames) (games t)))"

subsection \<open>Responses\<close>

text \<open>
  A response is the JSON body of a success, or a status code with the text of its
  \<^verbatim>\<open>error\<close> field. In the vocabulary of the specification, status 400 with a message
  that ends in \<^verbatim>\<open>required\<close> is a ValidationError, status 400 with
  \<^verbatim>\<open>Gamer already exists for this game\<close> is the ConflictError, status 404 is NotFound and
  status 500 is a StoreError.
\<close>

datatype 'a response = Json 'a | Status nat string

record item =
  rowid :: int
  game :: string
  players :: int
  gamer_list :: string
  owners_in_group :: "string option"

text \<open>\<^verbatim>\<open>x || ''\<close> for a column that is a string or \<^verbatim>\<open>NULL\<close>.\<close>

definition or_empty :: "string option \<Rightarrow> string" where
  "or_empty v = (case v of None \<Rightarrow> [] | Some s \<Rightarrow> s)"

subsection \<open>\<^verbatim>\<open>GET /api/games/all\<close>\<close>

definition list_all_games :: "bool \<Rightarrow> connection \<Rightarrow> item list response \<times> connection" where
  "list_all_games err db =
     (if err then (Status 500 ''Failed to fetch games'', record_stmt Select_Games db)
      else (Json (map (\<lambda>r. \<lparr>rowid = r_id r, game = r_game r, players = r_players r,
                              gamer_list = or_empty (r_gamer_list r), owners_in_group = None\<rparr>)
                    (getGamesWithGamers (content db))),
            record_stmt Select_Games db))"

subsection \<open>\<^verbatim>\<open>GET /api/games/playable\<close>\<close>

text \<open>
  \<open>playersParam\<close> is \<^verbatim>\<open>req.query.players\<close>: a string, or absent. \<^verbatim>\<open>!playersParam\<close> holds
  for the absent and for the empty string. The names are not compared with each other:
  a name written twice counts twice in \<^verbatim>\<open>playerNames.length\<close>. The error of the query
  includes the one SQLite raises for more parameters than it accepts.
\<close>

definition list_playable ::
  "string option \<Rightarrow> bool \<Rightarrow> connection \<Rightarrow> item list response \<times> connection" where
  "list_playable playersParam err db =
     (case playersParam of
        None \<Rightarrow> (Status 400 ''Players parameter is required'', db)
      | Some p \<Rightarrow>
          if p = [] then (Status 400 ''Players parameter is required'', db)
          else
            (let playerNames = split_names p in
             if length playerNames = 0
             then (Status 400 ''At least one player name is required'', db)
             else if err
             then (Status 500 ''Failed to fetch playable games'',
                   record_stmt (Select_Playable playerNames) db)
             else (Json (map (\<lambda>r. \<lparr>rowid = r_id r, game = r_game r, players = r_players r,
                                     gamer_list = or_empty (r_gamer_list r),
                                     owners_in_group = Some (or_empty (r_owners_in_group r))\<rparr>)
                           (getPlayableGames (content db) playerNames)),
                   record_stmt (Select_Playable playerNames) db)))"

subsection \<open>\<^verbatim>\<open>POST /api/games/all\<close>\<close>

text \<open>
  The loop \<^verbatim>\<open>gamerNames.forEach\<close> runs one insert per name and counts, in each callback,
  the inserts that succeeded and those that failed. The i-th insert fails when
  \<open>gamer_err i\<close>. A failed insert does not stop the ones after it.
\<close>

fun forEach_gamer ::
  "(nat \<Rightarrow> bool) \<Rightarrow> int \<Rightarrow> string list \<Rightarrow> nat \<Rightarrow> nat \<times> nat \<times> connection \<Rightarrow> nat \<times> nat \<times> connection" where
  "forEach_gamer gamer_err gameId [] i st = st"
| "forEach_gamer gamer_err gameId (gamerName # rest) i (insertCount, insertErrors, db) =
     (case insert_gamer (gamer_err i) gameId gamerName db of
        (None, db') \<Rightarrow>
          forEach_gamer gamer_err gameId rest (Suc i) (insertCount, Suc insertErrors, db')
      | (Some _, db') \<Rightarrow>
          forEach_gamer gamer_err gameId rest (Suc i) (Suc insertCount, insertErrors, db'))"

text \<open>
  The body fields \<^verbatim>\<open>game\<close> and \<^verbatim>\<open>gamers\<close> are strings and \<^verbatim>\<open>players\<close> is an integer,
  each possibly absent; fields of another JSON type are outside the model. \<^verbatim>\<open>!game\<close>
  holds for the absent and the empty name, \<^verbatim>\<open>!players\<close> for the absent and for 0, and
  \<^verbatim>\<open>parseInt\<close> of an integer that JavaScript prints in full (below \<^verbatim>\<open>1e21\<close> in absolute
  value) is that integer. The test \<^verbatim>\<open>insertCount + insertErrors === gamerNames.length\<close>
  holds in the callback of the last insert and in no earlier one (lemmas
  \<open>forEach_gamer_counts\<close> and \<open>forEach_gamer_not_yet\<close>), so the transaction is closed
  once, after the loop.
\<close>

definition create_game ::
  "string option \<Rightarrow> int option \<Rightarrow> string option \<Rightarrow> bool \<Rightarrow> (nat \<Rightarrow> bool) \<Rightarrow> connection
     \<Rightarrow> int response \<times> connection" where
  "create_game game_field players_field gamers_field game_err gamer_err db =
     (case (game_field, players_field) of
        (Some name, Some n) \<Rightarrow>
          if name = [] \<or> n = 0 then (Status 400 ''Game name and players are required'', db)
          else
            (case insert_game game_err name n (run_begin db) of
               (None, db1) \<Rightarrow> (Status 500 ''Failed to add game'', run_rollback db1)
             | (Some gameId, db1) \<Rightarrow>
                 (case gamers_field of
                    None \<Rightarrow> (Json gameId, run_commit db1)
                  | Some gamers \<Rightarrow>
                      if gamers \<noteq> [] \<and> trim gamers \<noteq> [] then
                        (let gamerNames = split_names gamers in
                         if length gamerNames > 0 then
                           (case forEach_gamer gamer_err gameId gamerNames 0 (0, 0, db1) of
                              (insertCount, insertErrors, db2) \<Rightarrow>
                                if insertErrors > 0
                                then (Status 500 ''Failed to add some gamers'', run_rollback db2)
                                else (Json gameId, run_commit db2))
                         else (Json gameId, run_commit db1))
                      else (Json gameId, run_commit db1)))
      | _ \<Rightarrow> (Status 400 ''Game name and players are required'', db))"

subsection \<open>\<^verbatim>\<open>DELETE /api/games/game/:id\<close>\<close>

text \<open>
  The route parameter is a numeral; the \<^verbatim>\<open>INTEGER\<close> columns it is compared with turn
  it into the integer it denotes.
\<close>

definition delete_game :: "int \<Rightarrow> bool \<Rightarrow> bool \<Rightarrow> connection \<Rightarrow> unit response \<times> connection" where
  "delete_game gameId gamers_err game_err db =
     (case delete_gamers gamers_err gameId (run_begin db) of
        (None, db1) \<Rightarrow> (Status 500 ''Failed to delete game gamers'', run_rollback db1)
      | (Some _, db1) \<Rightarrow>
          (case delete_game_row game_err gameId db1 of
             (None, db2) \<Rightarrow> (Status 500 ''Failed to delete game'', run_rollback db2)
           | (Some changes, db2) \<Rightarrow>
               if changes = 0 then (Status 404 ''Game not found'', run_rollback db2)
               else (Json (), run_commit db2)))"

subsection \<open>\<^verbatim>\<open>POST /api/games/game/:id/gamers\<close>\<close>

definition add_owner ::
  "int \<Rightarrow> string option \<Rightarrow> bool \<Rightarrow> bool \<Rightarrow> connection \<Rightarrow> int response \<times> connection" where
  "add_owner gameId gamer_name_field select_err insert_err db =
     (case gamer_name_field of
        None \<Rightarrow> (Status 400 ''Gamer name is required'', db)
      | Some gamer_name \<Rightarrow>
          if gamer_name = [] \<or> trim gamer_name = []
          then (Status 400 ''Gamer name is required'', db)
          else
            (case select_gamer select_err gameId (trim gamer_name) db of
               (None, db1) \<Rightarrow> (Status 500 ''Database error'', db1)
             | (Some (Some _), db1) \<Rightarrow> (Status 400 ''Gamer already exists for this game'', db1)
             | (Some None, db1) \<Rightarrow>
                 (case insert_gamer insert_err gameId (trim gamer_name) db1 of
                    (None, db2) \<Rightarrow> (Status 500 ''Failed to add gamer'', db2)
                  | (Some lastID, db2) \<Rightarrow> (Json lastID, db2))))"

subsection \<open>\<^verbatim>\<open>DELETE /api/games/game/:id/gamers\<close>\<close>

definition remove_owner ::
  "int \<Rightarrow> string option \<Rightarrow> bool \<Rightarrow> connection \<Rightarrow> unit response \<times> connection" where
  "remove_owner gameId gamer_name_field err db =
     (case gamer_name_field of
        None \<Rightarrow> (Status 400 ''Gamer name is required'', db)
      | Some gamer_name \<Rightarrow>
          if gamer_name = [] then (Status 400 ''Gamer name is required'', db)
          else
            (case delete_gamer err gameId gamer_name db of
               (None, db1) \<Rightarrow> (Status 500 ''Failed to remove gamer'', db1)
             | (Some changes, db1) \<Rightarrow>
                 if changes = 0 then (Status 404 ''Gamer not found for this game'', db1)
                 else (Json (), db1)))"

text \<open>The database file when the server first starts: two empty tables, no transaction.\<close>

definition empty_db :: connection where
  "empty_db =
     \<lparr>content = \<lparr>games = [], game_gamers = [], games_seq = 0, game_gamers_seq = 0\<rparr>,
      saved = None, issued = []\<rparr>"

subsection \<open>Vocabulary of the properties\<close>

text \<open>The names a comma-separated field stands for; an absent field stands for none.\<close>

definition names_of :: "string option \<Rightarrow> string list" where
  "names_of field = (case field of None \<Rightarrow> [] | Some s \<Rightarrow> split_names s)"

text \<open>The row id the next insert into \<^verbatim>\<open>games\<close> receives.\<close>

definition next_game_id :: "connection \<Rightarrow> int" where
  "next_game_id db = next_id (games_seq (content db)) (map g_id (games (content db)))"

text \<open>The row id the next insert into \<^verbatim>\<open>game_gamers\<close> receives.\<close>

definition next_gamer_id :: "connection \<Rightarrow> int" where
  "next_gamer_id db =
     next_id (game_gamers_seq (content db)) (map gg_id (game_gamers (content db)))"

text \<open>No statement of the loop fails.\<close>

definition no_err :: "nat \<Rightarrow> bool" where
  "no_err i = False"

text \<open>Within one game a name appears at most once.\<close>

definition unique_owners :: "tables \<Rightarrow> bool" where
  "unique_owners t = distinct (map (\<lambda>r. (gg_game_id r, gg_gamer_name r)) (game_gamers t))"

text \<open>Every stored owner name is its own trimmed form.\<close>

definition names_trimmed :: "tables \<Rightarrow> bool" where
  "names_trimmed t = list_all (\<lambda>r. trim (gg_gamer_name r) = gg_gamer_name r) (game_gamers t)"

text \<open>
  The catalogue of the specification's example, entered through the routes: Catan for
  3 players, owned by Alice and Bob, and Chess for 2 players, owned by Carol.
\<close>

definition catan_db :: connection where
  "catan_db =
     snd (create_game (Some ''Catan'') (Some 3) (Some ''Alice,Bob'') False no_err empty_db)"

definition example_db :: connection where
  "example_db = snd (create_game (Some ''Chess'') (Some 2) (Some ''Carol'') False no_err catan_db)"

text \<open>A fresh database after one request to add the owner Zed to game 1, which does not exist.\<close>

definition orphan_db :: connection where
  "orphan_db = snd (add_owner 1 (Some ''Zed'') False False empty_db)"

text \<open>A fresh database after one request to create Catan with the owners field \<^verbatim>\<open>Alice,Alice\<close>.\<close>

definition twice_db :: connection where
  "twice_db =
     snd (create_game (Some ''Catan'') (Some 3) (Some ''Alice,Alice'') False no_err empty_db)"

subsection \<open>The router\<close>

text \<open>
  A request names a route and carries its fields, together with the store errors it
  will meet. The states of the connection between requests are the ones reached from
  the fresh database by serving requests one after the other.
\<close>

datatype request =
    Get_All bool
  | Get_Playable "string option" bool
  | Post_Game "string option" "int option" "string option" bool "nat \<Rightarrow> bool"
  | Delete_Game_Route int bool bool
  | Post_Gamer int "string option" bool bool
  | Delete_Gamer_Route int "string option" bool

fun serve :: "request \<Rightarrow> connection \<Rightarrow> connection" where
  "serve (Get_All err) db = snd (list_all_games err db)"
| "serve (Get_Playable playersParam err) db = snd (list_playable playersParam err db)"
| "serve (Post_Game game_field players_field gamers_field game_err gamer_err) db =
     snd (create_game game_field players_field gamers_field game_err gamer_err db)"
| "serve (Delete_Game_Route gameId gamers_err game_err) db =
     snd (delete_game gameId gamers_err game_err db)"
| "serve (Post_Gamer gameId gamer_name_field select_err insert_err) db =
     snd (add_owner gameId gamer_name_field select_err insert_err db)"
| "serve (Delete_Gamer_Route gameId gamer_name_field err) db =
     snd (remove_owner gameId gamer_name_field err db)"

inductive reachable :: "connection \<Rightarrow> bool" where
  fresh: "reachable empty_db"
| served: "reachable db \<Longrightarrow> reachable (serve rq db)"

section \<open>Properties\<close>

subsection \<open>Row ids\<close>





subsection \<open>Splitting and trimming\<close>

lemma split_comma_no_comma: "CHR '','' \<notin> set s \<Longrightarrow> split_comma s = [s]"
  by (induction s) auto

lemma comma_not_space: "\<not> is_space (CHR '','')"
  by (simp add: is_space_def)

lemma trim_empty_all_space: "trim s = [] \<Longrightarrow> \<forall>c\<in>set s. is_space c"
proof -
  assume "trim s = []"
  then have rest: "\<forall>c\<in>set (dropWhile is_space s). is_space c"
    by (simp add: trim_def dropWhile_eq_Nil_conv)
  have "dropWhile is_space s = []"
  proof (cases "dropWhile is_space s")
    case Nil
    then show ?thesis .
  next
    case (Cons x xs)
    with hd_dropWhile [of is_space s] have "\<not> is_space x" by simp
    with rest Cons show ?thesis by simp
  qed
  then show ?thesis by (simp add: dropWhile_eq_Nil_conv)
qed

text \<open>A field of white space only names nobody: the two tests of the route agree.\<close>

lemma split_names_blank: "trim s = [] \<Longrightarrow> split_names s = []"
proof -
  assume blank: "trim s = []"
  with trim_empty_all_space comma_not_space have "CHR '','' \<notin> set s" by blast
  then have "split_comma s = [s]" by (rule split_comma_no_comma)
  with blank show ?thesis by (simp add: split_names_def)
qed

lemma trim_nonempty: "trim s \<noteq> [] \<Longrightarrow> s \<noteq> []"
  by (auto simp: trim_def)

lemma dropWhile_keeps_last: "dropWhile P xs \<noteq> [] \<Longrightarrow> last (dropWhile P xs) = last xs"
  by (metis last_appendR takeWhile_dropWhile_id)

lemma trim_ends:
  assumes "trim s \<noteq> []"
  shows "\<not> is_space (hd (trim s)) \<and> \<not> is_space (last (trim s))"
proof -
  let ?u = "dropWhile is_space s"
  let ?v = "dropWhile is_space (rev ?u)"
  from assms have v: "?v \<noteq> []" by (simp add: trim_def)
  have u: "?u \<noteq> []"
  proof
    assume "?u = []"
    then have "?v = []" by (simp only: rev.simps dropWhile.simps)
    with v show False by (simp only:)
  qed
  from v have "\<not> is_space (hd ?v)" by (rule hd_dropWhile)
  with v have tail: "\<not> is_space (last (trim s))" by (simp add: trim_def last_rev)
  from u have "\<not> is_space (hd ?u)" by (rule hd_dropWhile)
  moreover from v have "last ?v = last (rev ?u)" by (rule dropWhile_keeps_last)
  ultimately have "\<not> is_space (hd (trim s))"
    by (simp add: trim_def hd_rev last_rev)
  with tail show ?thesis by simp
qed

lemma trim_fixed:
  assumes "\<not> is_space (hd t)" "\<not> is_space (last t)"
  shows "trim t = t"
proof -
  from assms(1) have "dropWhile is_space t = t" by (simp add: dropWhile_eq_self_iff)
  moreover from assms(2) have "dropWhile is_space (rev t) = rev t"
    by (simp add: dropWhile_eq_self_iff hd_rev)
  ultimately show ?thesis by (simp add: trim_def)
qed

lemma trim_idem: "trim (trim s) = trim s"
proof (cases "trim s = []")
  case True
  have "trim [] = []" by (simp add: trim_def)
  with True show ?thesis by simp
next
  case False
  from trim_ends [OF False] show ?thesis by (simp add: trim_fixed)
qed

text \<open>A string differs from its trimmed form exactly when it begins or ends with white space.\<close>

lemma trim_changes_iff:
  "(trim s \<noteq> s) = (s \<noteq> [] \<and> (is_space (hd s) \<or> is_space (last s)))"
proof
  assume changed: "trim s \<noteq> s"
  have "trim [] = []" by (simp add: trim_def)
  with changed have "s \<noteq> []" by auto
  moreover from changed trim_fixed [of s] have "is_space (hd s) \<or> is_space (last s)" by auto
  ultimately show "s \<noteq> [] \<and> (is_space (hd s) \<or> is_space (last s))" by simp
next
  assume padded: "s \<noteq> [] \<and> (is_space (hd s) \<or> is_space (last s))"
  show "trim s \<noteq> s"
  proof
    assume same: "trim s = s"
    with padded have "trim s \<noteq> []" by simp
    from trim_ends [OF this] same padded show False by simp
  qed
qed

lemma split_names_trimmed: "name \<in> set (split_names s) \<Longrightarrow> trim name = name"
  by (auto simp: split_names_def trim_idem)

subsection \<open>Transactions\<close>

lemma run_begin_idle:
  "saved db = None \<Longrightarrow>
     run_begin db = db\<lparr>saved := Some (content db), issued := issued db @ [Begin_Transaction]\<rparr>"
  by (simp add: run_begin_def record_stmt_def)





lemma insert_game_begin:
  assumes "saved db = None"
  shows "insert_game False name n (run_begin db) =
     (Some (next_game_id db),
      db\<lparr>saved := Some (content db),
         issued := issued db @ [Begin_Transaction, Insert_Game name n],
         content := (content db)\<lparr>games := games (content db) @
                        [\<lparr>g_id = next_game_id db, g_game = name, g_players = n\<rparr>],
                      games_seq := next_game_id db\<rparr>\<rparr>)"
  using assms
  by (simp add: insert_game_def Let_def next_game_id_def run_begin_idle record_stmt_def)

lemma insert_game_begin_failed:
  assumes "saved db = None"
  shows "insert_game True name n (run_begin db) =
     (None, db\<lparr>saved := Some (content db),
                issued := issued db @ [Begin_Transaction, Insert_Game name n]\<rparr>)"
  using assms by (simp add: insert_game_def run_begin_idle record_stmt_def)

subsection \<open>The loop of owner inserts\<close>

lemma insert_gamer_None:
  "insert_gamer err gameId name db = (None, db') \<longleftrightarrow>
     err \<and> db' = db\<lparr>issued := issued db @ [Insert_Gamer gameId name]\<rparr>"
  by (auto simp: insert_gamer_def record_stmt_def Let_def)

lemma insert_gamer_Some:
  "insert_gamer err gameId name db = (Some k, db') \<Longrightarrow>
     \<not> err \<and> saved db' = saved db \<and> issued db' = issued db @ [Insert_Gamer gameId name] \<and>
     games (content db') = games (content db) \<and> games_seq (content db') = games_seq (content db) \<and>
     gamer_names (content db') g = gamer_names (content db) g @ (if g = gameId then [name] else [])"
  by (auto simp: insert_gamer_def record_stmt_def Let_def gamer_names_def split: if_splits)

lemma forEach_gamer_frame:
  "forEach_gamer F gameId names i (c, e, db) = (c', e', db') \<Longrightarrow>
     saved db' = saved db \<and> issued db' = issued db @ map (Insert_Gamer gameId) names \<and>
     games (content db') = games (content db) \<and> games_seq (content db') = games_seq (content db) \<and>
     c' + e' = c + e + length names \<and> e \<le> e'"
proof (induction names arbitrary: i c e db)
  case Nil
  then show ?case by simp
next
  case (Cons a names)
  show ?case
  proof (cases "insert_gamer (F i) gameId a db")
    case (Pair r db1)
    show ?thesis
    proof (cases r)
      case None
      with Pair Cons.prems have "forEach_gamer F gameId names (Suc i) (c, Suc e, db1) = (c', e', db')"
        by simp
      from Cons.IH [OF this] Pair None show ?thesis
        by (auto simp: insert_gamer_None)
    next
      case (Some k)
      with Pair Cons.prems have "forEach_gamer F gameId names (Suc i) (Suc c, e, db1) = (c', e', db')"
        by simp
      from Cons.IH [OF this] insert_gamer_Some [of "F i" gameId a db k db1] Pair Some show ?thesis
        by auto
    qed
  qed
qed

text \<open>
  After the inserts of a part of the list the two counters add up to the length of that
  part, so they reach \<^verbatim>\<open>gamerNames.length\<close> in the callback of the last insert only.
\<close>

lemma forEach_gamer_append:
  "forEach_gamer F gameId (front @ rest) i st =
     forEach_gamer F gameId rest (i + length front) (forEach_gamer F gameId front i st)"
proof (induction front arbitrary: i st)
  case Nil
  then show ?case by simp
next
  case (Cons a names)
  obtain c e db where st: "st = (c, e, db)" by (cases st)
  show ?case
    by (cases "insert_gamer (F i) gameId a db") (auto simp: st Cons.IH split: option.splits)
qed

lemma forEach_gamer_counts:
  assumes "forEach_gamer F gameId names 0 (0, 0, db) = (insertCount, insertErrors, db')"
  shows "insertCount + insertErrors = length names"
  using forEach_gamer_frame [OF assms] by simp

lemma forEach_gamer_not_yet:
  assumes "forEach_gamer F gameId front 0 (0, 0, db) = (insertCount, insertErrors, db')"
    and "rest \<noteq> []"
  shows "insertCount + insertErrors \<noteq> length (front @ rest)"
  using forEach_gamer_counts [OF assms(1)] assms(2) by simp



subsection \<open>The queries\<close>


lemma group_concat_None: "(group_concat vs = None) = (vs = [])"
  by (cases vs) (simp_all add: group_concat_def)

lemma sql_distinct_Nil: "(sql_distinct vs = []) = (vs = [])"
  by (simp add: sql_distinct_def)

lemma owners_in_group_iff:
  "(owners_in_group_of t playerNames gameId \<noteq> None) =
     (\<exists>r\<in>set (game_gamers t). gg_game_id r = gameId \<and> gg_gamer_name r \<in> set playerNames)"
  by (auto simp: owners_in_group_of_def group_concat_None sql_distinct_Nil gamer_names_def
      filter_empty_conv)

lemma list_playable_items:
  assumes "split_names p \<noteq> []"
  shows "fst (list_playable (Some p) False db) =
     Json (map (\<lambda>r. \<lparr>rowid = r_id r, game = r_game r, players = r_players r,
                      gamer_list = or_empty (r_gamer_list r),
                      owners_in_group = Some (or_empty (r_owners_in_group r))\<rparr>)
            (getPlayableGames (content db) (split_names p)))"
proof -
  from assms have "p \<noteq> []" by (auto simp: split_names_def trim_def)
  with assms show ?thesis by (simp add: list_playable_def Let_def)
qed


subsection \<open>What each route answers\<close>

lemma create_game_invalid:
  assumes "game_field = None \<or> game_field = Some [] \<or> players_field = None \<or> players_field = Some 0"
  shows "create_game game_field players_field gamers_field game_err gamer_err db =
     (Status 400 ''Game name and players are required'', db)"
  using assms by (auto simp: create_game_def split: option.splits)

lemma create_game_unfold:
  assumes "name \<noteq> []" "n \<noteq> 0"
  shows "create_game (Some name) (Some n) gamers_field game_err gamer_err db =
     (case insert_game game_err name n (run_begin db) of
        (None, db1) \<Rightarrow> (Status 500 ''Failed to add game'', run_rollback db1)
      | (Some gameId, db1) \<Rightarrow>
          (case forEach_gamer gamer_err gameId (names_of gamers_field) 0 (0, 0, db1) of
             (insertCount, insertErrors, db2) \<Rightarrow>
               if 0 < insertErrors
               then (Status 500 ''Failed to add some gamers'', run_rollback db2)
               else (Json gameId, run_commit db2)))"
proof (cases "insert_game game_err name n (run_begin db)")
  case (Pair r db1)
  show ?thesis
  proof (cases r)
    case None
    with Pair assms show ?thesis by (simp add: create_game_def)
  next
    case (Some gameId)
    show ?thesis
    proof (cases gamers_field)
      case None
      with Pair Some assms show ?thesis by (simp add: create_game_def names_of_def)
    next
      case field: (Some gamers)
      show ?thesis
      proof (cases "trim gamers = []")
        case True
        then have "split_names gamers = []" by (rule split_names_blank)
        with Pair Some field True assms show ?thesis
          by (simp add: create_game_def names_of_def)
      next
        case False
        then have "gamers \<noteq> []" by (rule trim_nonempty)
        with Pair Some field False assms show ?thesis
          by (cases "split_names gamers = []") (simp_all add: create_game_def names_of_def Let_def)
      qed
    qed
  qed
qed

lemma add_owner_present:
  assumes "trim gamer_name \<noteq> []"
    and "filter (owns gameId (trim gamer_name)) (game_gamers (content db)) \<noteq> []"
  shows "add_owner gameId (Some gamer_name) False insert_err db =
     (Status 400 ''Gamer already exists for this game'',
      db\<lparr>issued := issued db @ [Select_Gamer gameId (trim gamer_name)]\<rparr>)"
proof -
  from assms(1) have "gamer_name \<noteq> []" by (rule trim_nonempty)
  with assms show ?thesis
    by (simp add: add_owner_def select_gamer_def record_stmt_def split: list.splits)
qed

lemma add_owner_absent:
  assumes "trim gamer_name \<noteq> []"
    and "filter (owns gameId (trim gamer_name)) (game_gamers (content db)) = []"
  shows "add_owner gameId (Some gamer_name) False False db =
     (Json (next_gamer_id db),
      db\<lparr>issued := issued db @
             [Select_Gamer gameId (trim gamer_name), Insert_Gamer gameId (trim gamer_name)],
         content := (content db)\<lparr>game_gamers := game_gamers (content db) @
             [\<lparr>gg_id = next_gamer_id db, gg_game_id = gameId, gg_gamer_name = trim gamer_name\<rparr>],
           game_gamers_seq := next_gamer_id db\<rparr>\<rparr>)"
proof -
  from assms(1) have "gamer_name \<noteq> []" by (rule trim_nonempty)
  with assms show ?thesis
    by (simp add: add_owner_def select_gamer_def insert_gamer_def record_stmt_def Let_def
        next_gamer_id_def)
qed

lemma remove_owner_result:
  assumes "gamer_name \<noteq> []"
  shows "remove_owner gameId (Some gamer_name) False db =
     (if filter (owns gameId gamer_name) (game_gamers (content db)) = []
      then Status 404 ''Gamer not found for this game'' else Json (),
      db\<lparr>issued := issued db @ [Delete_Gamer gameId gamer_name],
         content := (content db)\<lparr>game_gamers :=
           filter (\<lambda>r. \<not> owns gameId gamer_name r) (game_gamers (content db))\<rparr>\<rparr>)"
  using assms by (simp add: remove_owner_def delete_gamer_def record_stmt_def Let_def)

lemma delete_game_result:
  assumes "saved db = None"
  shows "delete_game gameId False False db =
     (if filter (\<lambda>g. g_id g = gameId) (games (content db)) = []
      then (Status 404 ''Game not found'',
            db\<lparr>issued := issued db @
              [Begin_Transaction, Delete_Gamers gameId, Delete_Game gameId, Rollback]\<rparr>)
      else (Json (),
            db\<lparr>issued := issued db @
                [Begin_Transaction, Delete_Gamers gameId, Delete_Game gameId, Commit],
              content := (content db)\<lparr>
                game_gamers := filter (\<lambda>r. gg_game_id r \<noteq> gameId) (game_gamers (content db)),
                games := filter (\<lambda>g. g_id g \<noteq> gameId) (games (content db))\<rparr>\<rparr>))"
  using assms
  by (auto simp: delete_game_def delete_gamers_def delete_game_row_def Let_def
      run_begin_idle run_rollback_def run_commit_def record_stmt_def)

text \<open>A store error in either delete ends in \<^verbatim>\<open>ROLLBACK\<close> and leaves the tables as they were.\<close>

lemma delete_game_store_error:
  assumes "saved db = None" "gamers_err \<or> game_err"
  shows "content (snd (delete_game gameId gamers_err game_err db)) = content db \<and>
     saved (snd (delete_game gameId gamers_err game_err db)) = None \<and>
     (fst (delete_game gameId gamers_err game_err db) = Status 500 ''Failed to delete game gamers'' \<or>
      fst (delete_game gameId gamers_err game_err db) = Status 500 ''Failed to delete game'')"
  using assms
  by (auto simp: delete_game_def delete_gamers_def delete_game_row_def Let_def
      run_begin_idle run_rollback_def record_stmt_def)

text \<open>So does a store error in the insert of the game row.\<close>

lemma create_game_store_error:
  assumes "saved db = None" "name \<noteq> []" "n \<noteq> 0"
  shows "create_game (Some name) (Some n) gamers_field True gamer_err db =
     (Status 500 ''Failed to add game'',
      db\<lparr>issued := issued db @ [Begin_Transaction, Insert_Game name n, Rollback]\<rparr>)"
  using assms
  by (simp add: create_game_unfold insert_game_begin_failed run_rollback_def record_stmt_def)

subsection \<open>Which games a group can play\<close>

text \<open>
  C1, in the form the code satisfies. Let the \<^verbatim>\<open>players\<close> parameter name at least one
  player, and let \<open>G\<close> be the list of names it splits into, repeated names counted as
  often as they are written. The route answers with a list of items, and a game of the
  table is in it if and only if some row of \<^verbatim>\<open>game_gamers\<close> pairs the game with a name of
  \<open>G\<close> and the game's \<^verbatim>\<open>players\<close> value is at least the length of \<open>G\<close>. No item has a
  \<^verbatim>\<open>players\<close> value below the length of \<open>G\<close>: the query keeps the games the whole group
  fits into, \<^verbatim>\<open>g.players >= ?\<close>, not the games the group is large enough for.
\<close>

theorem list_playable_membership:
  assumes group: "split_names p \<noteq> []"
    and g: "g \<in> set (games (content db))"
  shows "\<exists>items. fst (list_playable (Some p) False db) = Json items \<and>
     ((\<exists>it\<in>set items. rowid it = g_id g \<and> game it = g_game g \<and> players it = g_players g) =
      ((\<exists>r\<in>set (game_gamers (content db)).
           gg_game_id r = g_id g \<and> gg_gamer_name r \<in> set (split_names p)) \<and>
       int (length (split_names p)) \<le> g_players g)) \<and>
     (\<forall>it\<in>set items. int (length (split_names p)) \<le> players it)"
proof -
  let ?G = "split_names p"
  let ?t = "content db"
  let ?items = "map (\<lambda>r. \<lparr>rowid = r_id r, game = r_game r, players = r_players r,
                      gamer_list = or_empty (r_gamer_list r),
                      owners_in_group = Some (or_empty (r_owners_in_group r))\<rparr>)
            (getPlayableGames ?t ?G)"
  have same: "g' = g" if "g_id g' = g_id g" "g_game g' = g_game g" "g_players g' = g_players g"
    for g' :: games_row
    using that by simp
  have "(\<exists>it\<in>set ?items. rowid it = g_id g \<and> game it = g_game g \<and> players it = g_players g) =
      (\<exists>g'\<in>set (games ?t). having_playable ?t ?G g' \<and>
          g_id g' = g_id g \<and> g_game g' = g_game g \<and> g_players g' = g_players g)"
    by (auto simp: getPlayableGames_def)
  also have "\<dots> = having_playable ?t ?G g"
    using g same by blast
  also have "\<dots> = ((\<exists>r\<in>set (game_gamers ?t). gg_game_id r = g_id g \<and> gg_gamer_name r \<in> set ?G) \<and>
       int (length ?G) \<le> g_players g)"
    unfolding having_playable_def owners_in_group_iff by auto
  finally have member: "(\<exists>it\<in>set ?items. rowid it = g_id g \<and> game it = g_game g \<and> players it = g_players g) =
      ((\<exists>r\<in>set (game_gamers ?t). gg_game_id r = g_id g \<and> gg_gamer_name r \<in> set ?G) \<and>
       int (length ?G) \<le> g_players g)" .
  have size: "\<forall>it\<in>set ?items. int (length ?G) \<le> players it"
    by (auto simp: getPlayableGames_def having_playable_def)
  from list_playable_items [OF group] member size show ?thesis by blast
qed

text \<open>
  On the example catalogue, Alice and Bob can play Catan, which takes up to 3 players
  and which they own; Chess, which neither owns, is not offered.
\<close>

theorem list_playable_membership_witness:
  "\<exists>items. fst (list_playable (Some ''Alice,Bob'') False example_db) = Json items \<and>
     (\<exists>it\<in>set items. rowid it = 1 \<and> game it = ''Catan'' \<and> players it = 3) \<and>
     \<not> (\<exists>it\<in>set items. rowid it = 2 \<and> game it = ''Chess'' \<and> players it = 2)"
proof -
  have group: "split_names ''Alice,Bob'' \<noteq> []" by code_simp
  have catan: "\<lparr>g_id = 1, g_game = ''Catan'', g_players = 3\<rparr> \<in> set (games (content example_db))"
    by code_simp
  have chess: "\<lparr>g_id = 2, g_game = ''Chess'', g_players = 2\<rparr> \<in> set (games (content example_db))"
    by code_simp
  have owner1: "(\<exists>r\<in>set (game_gamers (content example_db)).
      gg_game_id r = 1 \<and> gg_gamer_name r \<in> set (split_names ''Alice,Bob'')) = True"
    by code_simp
  have owner2: "(\<exists>r\<in>set (game_gamers (content example_db)).
      gg_game_id r = 2 \<and> gg_gamer_name r \<in> set (split_names ''Alice,Bob'')) = False"
    by code_simp
  have size: "length (split_names ''Alice,Bob'') = 2" by code_simp
  from list_playable_membership [OF group catan]
  obtain items where items: "fst (list_playable (Some ''Alice,Bob'') False example_db) = Json items"
    and here: "\<exists>it\<in>set items. rowid it = 1 \<and> game it = ''Catan'' \<and> players it = 3"
    by (auto simp: owner1 size)
  from list_playable_membership [OF group chess]
  obtain items' where items': "fst (list_playable (Some ''Alice,Bob'') False example_db) = Json items'"
    and away: "\<not> (\<exists>it\<in>set items'. rowid it = 2 \<and> game it = ''Chess'' \<and> players it = 2)"
    by (auto simp: owner2 size)
  from items items' have "items' = items" by simp
  with items here away show ?thesis by blast
qed

text \<open>
  C1 as stated fails on the same request: the group has 2 members, Catan has the
  \<^verbatim>\<open>players\<close> value 3, which exceeds 2, and Catan is returned.
\<close>

theorem list_playable_membership_counterexample:
  "fst (list_playable (Some ''Alice,Bob'') False example_db) =
     Json [\<lparr>rowid = 1, game = ''Catan'', players = 3, gamer_list = ''Alice,Bob'',
            owners_in_group = Some ''Alice,Bob''\<rparr>] \<and>
   split_names ''Alice,Bob'' = [''Alice'', ''Bob''] \<and>
   \<not> (3::int) \<le> int (length [''Alice'', ''Bob''])"
  by code_simp

subsection \<open>Creating a game with its owners\<close>







subsection \<open>Deleting a game\<close>

text \<open>
  C4. \<open>delete_game\<close> runs alone on a connection with no open transaction, and neither
  delete meets a store error. It issues \<^verbatim>\<open>BEGIN\<close>, the delete of the owner rows of the id
  and the delete of the game row. If no game has the id, it ends with \<^verbatim>\<open>ROLLBACK\<close> and
  answers 404, and both tables are what they were, the owner rows of that id included.
  Otherwise it ends with \<^verbatim>\<open>COMMIT\<close>: the game row and every owner row of the id are gone,
  all other rows stay, and a second \<open>delete_game\<close> of the id answers 404.
\<close>

theorem delete_game_cascade:
  assumes idle: "saved db = None"
    and call: "delete_game gameId False False db = (res, db')"
  shows
    "(filter (\<lambda>g. g_id g = gameId) (games (content db)) = [] \<longrightarrow>
        res = Status 404 ''Game not found'' \<and>
        content db' = content db \<and>
        saved db' = None \<and>
        issued db' = issued db @
          [Begin_Transaction, Delete_Gamers gameId, Delete_Game gameId, Rollback]) \<and>
     (filter (\<lambda>g. g_id g = gameId) (games (content db)) \<noteq> [] \<longrightarrow>
        res = Json () \<and>
        saved db' = None \<and>
        issued db' = issued db @
          [Begin_Transaction, Delete_Gamers gameId, Delete_Game gameId, Commit] \<and>
        game_gamers (content db') = filter (\<lambda>r. gg_game_id r \<noteq> gameId) (game_gamers (content db)) \<and>
        games (content db') = filter (\<lambda>g. g_id g \<noteq> gameId) (games (content db)) \<and>
        filter (\<lambda>r. gg_game_id r = gameId) (game_gamers (content db')) = [] \<and>
        fst (delete_game gameId False False db') = Status 404 ''Game not found'')"
proof (intro conjI impI)
  assume absent: "filter (\<lambda>g. g_id g = gameId) (games (content db)) = []"
  with call delete_game_result [OF idle, of gameId]
  have res: "res = Status 404 ''Game not found''"
    and db': "db' = db\<lparr>issued := issued db @
      [Begin_Transaction, Delete_Gamers gameId, Delete_Game gameId, Rollback]\<rparr>"
    by simp_all
  show "res = Status 404 ''Game not found''" by (rule res)
  show "content db' = content db" by (simp add: db')
  show "saved db' = None" by (simp add: db' idle)
  show "issued db' = issued db @
      [Begin_Transaction, Delete_Gamers gameId, Delete_Game gameId, Rollback]"
    by (simp add: db')
next
  assume present: "filter (\<lambda>g. g_id g = gameId) (games (content db)) \<noteq> []"
  with call delete_game_result [OF idle, of gameId]
  have res: "res = Json ()"
    and db': "db' = db\<lparr>issued := issued db @
        [Begin_Transaction, Delete_Gamers gameId, Delete_Game gameId, Commit],
      content := (content db)\<lparr>
        game_gamers := filter (\<lambda>r. gg_game_id r \<noteq> gameId) (game_gamers (content db)),
        games := filter (\<lambda>g. g_id g \<noteq> gameId) (games (content db))\<rparr>\<rparr>"
    by simp_all
  show "res = Json ()" by (rule res)
  show "saved db' = None" by (simp add: db' idle)
  show "issued db' = issued db @
      [Begin_Transaction, Delete_Gamers gameId, Delete_Game gameId, Commit]"
    by (simp add: db')
  show "game_gamers (content db') = filter (\<lambda>r. gg_game_id r \<noteq> gameId) (game_gamers (content db))"
    by (simp add: db')
  show "games (content db') = filter (\<lambda>g. g_id g \<noteq> gameId) (games (content db))"
    by (simp add: db')
  show "filter (\<lambda>r. gg_game_id r = gameId) (game_gamers (content db')) = []"
    by (simp add: db' filter_empty_conv)
  have idle': "saved db' = None" by (simp add: db' idle)
  have gone: "filter (\<lambda>g. g_id g = gameId) (games (content db')) = []"
    by (simp add: db' filter_empty_conv)
  show "fst (delete_game gameId False False db') = Status 404 ''Game not found''"
    by (simp add: delete_game_result [OF idle'] gone)
qed

text \<open>
  Catan is deleted with its two owner rows, and cannot be deleted again; deleting game 1
  of \<open>orphan_db\<close>, where only an owner row carries that id, answers 404 and keeps the row.
\<close>

theorem delete_game_cascade_witness:
  "fst (delete_game 1 False False catan_db) = Json () \<and>
   games (content (snd (delete_game 1 False False catan_db))) = [] \<and>
   game_gamers (content (snd (delete_game 1 False False catan_db))) = [] \<and>
   fst (delete_game 1 False False (snd (delete_game 1 False False catan_db))) =
     Status 404 ''Game not found'' \<and>
   fst (delete_game 1 False False orphan_db) = Status 404 ''Game not found'' \<and>
   content (snd (delete_game 1 False False orphan_db)) = content orphan_db"
proof -
  have idle1: "saved catan_db = None" and idle2: "saved orphan_db = None" by code_simp+
  have present: "filter (\<lambda>g. g_id g = 1) (games (content catan_db)) \<noteq> []" by code_simp
  have absent: "filter (\<lambda>g. g_id g = 1) (games (content orphan_db)) = []" by code_simp
  have rows: "content catan_db =
      \<lparr>games = [\<lparr>g_id = 1, g_game = ''Catan'', g_players = 3\<rparr>],
       game_gamers = [\<lparr>gg_id = 1, gg_game_id = 1, gg_gamer_name = ''Alice''\<rparr>,
                      \<lparr>gg_id = 2, gg_game_id = 1, gg_gamer_name = ''Bob''\<rparr>],
       games_seq = 1, game_gamers_seq = 2\<rparr>" by code_simp
  from delete_game_cascade [OF idle1 surjective_pairing, of 1] present
  have 1: "fst (delete_game 1 False False catan_db) = Json () \<and>
     games (content (snd (delete_game 1 False False catan_db))) = [] \<and>
     game_gamers (content (snd (delete_game 1 False False catan_db))) = [] \<and>
     fst (delete_game 1 False False (snd (delete_game 1 False False catan_db))) =
       Status 404 ''Game not found''"
    by (simp add: rows)
  from delete_game_cascade [OF idle2 surjective_pairing, of 1] absent
  have 2: "fst (delete_game 1 False False orphan_db) = Status 404 ''Game not found'' \<and>
     content (snd (delete_game 1 False False orphan_db)) = content orphan_db"
    by simp
  from 1 2 show ?thesis by simp
qed

subsection \<open>Adding an owner\<close>

lemma distinct_map_filter_le:
  "distinct (map f xs) \<Longrightarrow> length (filter (\<lambda>x. f x = k) xs) \<le> 1"
proof (induction xs)
  case Nil
  then show ?case by simp
next
  case (Cons x xs)
  show ?case
  proof (cases "f x = k")
    case True
    from Cons.prems have "f x \<notin> f ` set xs" by simp
    with True have "filter (\<lambda>x. f x = k) xs = []"
      by (auto simp: filter_empty_conv image_iff)
    with True show ?thesis by simp
  next
    case False
    with Cons show ?thesis by simp
  qed
qed

text \<open>Where every pair of game and name is stored at most once, so is each single pair.\<close>

lemma unique_owners_at_most_one:
  assumes "unique_owners t"
  shows "length (filter (owns gameId name) (game_gamers t)) \<le> 1"
proof -
  have "owns gameId name = (\<lambda>r. (gg_game_id r, gg_gamer_name r) = (gameId, name))"
    by (auto simp: owns_def)
  with distinct_map_filter_le [of "\<lambda>r. (gg_game_id r, gg_gamer_name r)" "game_gamers t" "(gameId, name)"]
    assms show ?thesis by (simp add: unique_owners_def)
qed




subsection \<open>An empty group\<close>



subsection \<open>One row per owner and game\<close>

text \<open>
  C7 does not hold of \<open>create_game\<close>: the route inserts one row per name it splits from
  the field and never compares the names with each other. On a fresh database, where
  every pair of game and name is stored at most once, the owners field
  \<^verbatim>\<open>Alice,Alice\<close> stores two rows that pair game 1 with Alice: the pairs are no longer
  distinct, and the list of all games shows Alice twice.
\<close>

theorem create_game_duplicate_owners:
  "unique_owners (content empty_db) \<and>
   create_game (Some ''Catan'') (Some 3) (Some ''Alice,Alice'') False no_err empty_db =
     (Json 1,
      \<lparr>content =
         \<lparr>games = [\<lparr>g_id = 1, g_game = ''Catan'', g_players = 3\<rparr>],
          game_gamers = [\<lparr>gg_id = 1, gg_game_id = 1, gg_gamer_name = ''Alice''\<rparr>,
                         \<lparr>gg_id = 2, gg_game_id = 1, gg_gamer_name = ''Alice''\<rparr>],
          games_seq = 1, game_gamers_seq = 2\<rparr>,
       saved = None,
       issued = [Begin_Transaction, Insert_Game ''Catan'' 3, Insert_Gamer 1 ''Alice'',
                 Insert_Gamer 1 ''Alice'', Commit]\<rparr>) \<and>
   \<not> unique_owners (content twice_db) \<and>
   fst (list_all_games False twice_db) =
     Json [\<lparr>rowid = 1, game = ''Catan'', players = 3, gamer_list = ''Alice,Alice'',
            owners_in_group = None\<rparr>]"
  by code_simp

text \<open>
  The other routes keep the pairs distinct: \<open>add_owner\<close> inserts a pair only after
  finding no row for it, and the two deleting routes only remove rows.
\<close>

lemma add_owner_unique_owners:
  assumes "unique_owners (content db)"
  shows "unique_owners (content (snd (add_owner gameId gamer_name_field select_err insert_err db)))"
  using assms
  by (auto simp: add_owner_def select_gamer_def insert_gamer_def record_stmt_def Let_def
      unique_owners_def owns_def filter_empty_conv split: option.splits list.splits)

lemma remove_owner_unique_owners:
  assumes "unique_owners (content db)"
  shows "unique_owners (content (snd (remove_owner gameId gamer_name_field err db)))"
  using assms
  by (auto simp: remove_owner_def delete_gamer_def record_stmt_def Let_def
      unique_owners_def distinct_map_filter split: option.splits)

lemma delete_game_unique_owners:
  assumes "saved db = None" "unique_owners (content db)"
  shows "unique_owners (content (snd (delete_game gameId gamers_err game_err db)))"
  using assms
  by (auto simp: delete_game_def delete_gamers_def delete_game_row_def Let_def
      run_begin_idle run_rollback_def run_commit_def record_stmt_def
      unique_owners_def distinct_map_filter)

subsection \<open>Removing an owner\<close>



subsection \<open>Owners of games that do not exist\<close>



subsection \<open>Names with white space around them\<close>

text \<open>
  C10, in the form the code satisfies. Let the name of the request begin or end with
  white space, which is to say that it differs from its trimmed form (lemma
  \<open>trim_changes_iff\<close>), and not consist of white space only; let every name in the
  table be trimmed, as it is in every state between requests (lemma
  \<open>reachable_between\<close>); and let no statement fail. Then after \<open>add_owner\<close> with that name, \<open>remove_owner\<close> with the
  same string answers 404 and changes no row, and a row that pairs the game with the
  trimmed name is still there.
\<close>

theorem add_then_remove_untrimmed:
  assumes valid: "trim gamer_name \<noteq> []"
    and padded: "trim gamer_name \<noteq> gamer_name"
    and stored: "names_trimmed (content db)"
    and added: "add_owner gameId (Some gamer_name) False False db = (res1, db1)"
    and removed: "remove_owner gameId (Some gamer_name) False db1 = (res2, db2)"
  shows
    "res2 = Status 404 ''Gamer not found for this game'' \<and>
     content db2 = content db1 \<and>
     filter (owns gameId (trim gamer_name)) (game_gamers (content db2)) \<noteq> []"
proof -
  from valid have given: "gamer_name \<noteq> []" by (rule trim_nonempty)
  from stored padded have raw: "filter (owns gameId gamer_name) (game_gamers (content db)) = []"
    by (auto simp: names_trimmed_def list_all_iff filter_empty_conv owns_def)
  have after: "filter (owns gameId gamer_name) (game_gamers (content db1)) = [] \<and>
      filter (owns gameId (trim gamer_name)) (game_gamers (content db1)) \<noteq> []"
  proof (cases "filter (owns gameId (trim gamer_name)) (game_gamers (content db)) = []")
    case True
    from added add_owner_absent [OF valid True] raw padded show ?thesis
      by (auto simp: owns_def)
  next
    case False
    from added add_owner_present [OF valid False, of False] raw False show ?thesis
      by auto
  qed
  then have same: "filter (\<lambda>r. \<not> owns gameId gamer_name r) (game_gamers (content db1)) =
      game_gamers (content db1)"
    by (simp add: filter_empty_conv)
  from removed remove_owner_result [OF given, of gameId db1] after
  have "res2 = Status 404 ''Gamer not found for this game''"
    and "db2 = db1\<lparr>issued := issued db1 @ [Delete_Gamer gameId gamer_name],
        content := (content db1)\<lparr>game_gamers :=
          filter (\<lambda>r. \<not> owns gameId gamer_name r) (game_gamers (content db1))\<rparr>\<rparr>"
    by simp_all
  with after same show ?thesis by simp
qed

text \<open>Zed, added with a leading blank, cannot be removed with the same string.\<close>

theorem add_then_remove_untrimmed_witness:
  "fst (remove_owner 1 (Some '' Zed'') False (snd (add_owner 1 (Some '' Zed'') False False empty_db))) =
     Status 404 ''Gamer not found for this game'' \<and>
   game_gamers (content (snd (remove_owner 1 (Some '' Zed'') False
       (snd (add_owner 1 (Some '' Zed'') False False empty_db))))) =
     [\<lparr>gg_id = 1, gg_game_id = 1, gg_gamer_name = ''Zed''\<rparr>]"
proof -
  have valid: "trim '' Zed'' \<noteq> []" and padded: "trim '' Zed'' \<noteq> '' Zed''" by code_simp+
  have stored: "names_trimmed (content empty_db)" by code_simp
  have rows: "game_gamers (content (snd (add_owner 1 (Some '' Zed'') False False empty_db))) =
      [\<lparr>gg_id = 1, gg_game_id = 1, gg_gamer_name = ''Zed''\<rparr>]" by code_simp
  from add_then_remove_untrimmed [OF valid padded stored surjective_pairing surjective_pairing]
  show ?thesis by (simp add: rows)
qed

text \<open>
  C10 as stated fails for a name of white space only, which has leading white space:
  \<open>add_owner\<close> answers 400 and stores nothing, so after the 404 of \<open>remove_owner\<close> there is
  no row under the trimmed name.
\<close>

theorem add_then_remove_untrimmed_counterexample:
  "fst (add_owner 1 (Some '' '') False False empty_db) = Status 400 ''Gamer name is required'' \<and>
   fst (remove_owner 1 (Some '' '') False (snd (add_owner 1 (Some '' '') False False empty_db))) =
     Status 404 ''Gamer not found for this game'' \<and>
   game_gamers (content (snd (remove_owner 1 (Some '' '') False
       (snd (add_owner 1 (Some '' '') False False empty_db))))) = []"
  by code_simp

subsection \<open>What holds between requests\<close>

text \<open>
  Two of the hypotheses above hold of every state the connection can be in between
  requests: no transaction is open, and every stored owner name is trimmed. The other
  two do not: an owner row can carry the id of a game that does not exist yet (C9), and
  a pair of game and name can be stored twice (C7).
\<close>

lemma insert_gamer_trimmed:
  assumes "insert_gamer err gameId name db = (r, db')" "trim name = name"
    "names_trimmed (content db)"
  shows "names_trimmed (content db')"
  using assms
  by (auto simp: insert_gamer_def record_stmt_def Let_def names_trimmed_def split: if_splits)

lemma forEach_gamer_trimmed:
  "forEach_gamer F gameId names i (c, e, db) = (c', e', db') \<Longrightarrow>
     \<forall>name\<in>set names. trim name = name \<Longrightarrow> names_trimmed (content db) \<Longrightarrow>
     names_trimmed (content db')"
proof (induction names arbitrary: i c e db)
  case Nil
  then show ?case by simp
next
  case (Cons a names)
  obtain r db1 where step: "insert_gamer (F i) gameId a db = (r, db1)"
    by (cases "insert_gamer (F i) gameId a db")
  from Cons.prems have a: "trim a = a" and rest: "\<forall>name\<in>set names. trim name = name"
    by simp_all
  from insert_gamer_trimmed [OF step a Cons.prems(3)] have ok: "names_trimmed (content db1)" .
  show ?case
  proof (cases r)
    case None
    with step Cons.prems(1)
    have "forEach_gamer F gameId names (Suc i) (c, Suc e, db1) = (c', e', db')" by simp
    from Cons.IH [OF this rest ok] show ?thesis .
  next
    case (Some k)
    with step Cons.prems(1)
    have "forEach_gamer F gameId names (Suc i) (Suc c, e, db1) = (c', e', db')" by simp
    from Cons.IH [OF this rest ok] show ?thesis .
  qed
qed

lemma names_of_trimmed: "\<forall>name\<in>set (names_of field). trim name = name"
  by (cases field) (simp_all add: names_of_def split_names_trimmed)

lemma create_game_between:
  assumes idle: "saved db = None" and stored: "names_trimmed (content db)"
  shows "saved (snd (create_game game_field players_field gamers_field game_err gamer_err db)) = None \<and>
     names_trimmed
       (content (snd (create_game game_field players_field gamers_field game_err gamer_err db)))"
proof (cases "game_field = None \<or> game_field = Some [] \<or> players_field = None \<or> players_field = Some 0")
  case True
  from create_game_invalid [OF True] idle stored show ?thesis by simp
next
  case False
  then obtain name n where fields: "game_field = Some name" "players_field = Some n"
    and valid: "name \<noteq> []" "n \<noteq> 0"
    by auto
  show ?thesis
  proof (cases game_err)
    case True
    from create_game_store_error [OF idle valid] idle stored fields True show ?thesis by simp
  next
    case False
    define db1 where "db1 =
       db\<lparr>saved := Some (content db),
          issued := issued db @ [Begin_Transaction, Insert_Game name n],
          content := (content db)\<lparr>games := games (content db) @
                         [\<lparr>g_id = next_game_id db, g_game = name, g_players = n\<rparr>],
                       games_seq := next_game_id db\<rparr>\<rparr>"
    have ins: "insert_game False name n (run_begin db) = (Some (next_game_id db), db1)"
      unfolding db1_def by (rule insert_game_begin [OF idle])
    from stored have stored1: "names_trimmed (content db1)"
      by (simp add: db1_def names_trimmed_def)
    obtain c e db2 where run:
      "forEach_gamer gamer_err (next_game_id db) (names_of gamers_field) 0 (0, 0, db1) = (c, e, db2)"
      by (metis prod_cases3)
    from forEach_gamer_trimmed [OF run names_of_trimmed stored1]
    have stored2: "names_trimmed (content db2)" .
    from forEach_gamer_frame [OF run] have saved2: "saved db2 = Some (content db)"
      by (simp add: db1_def)
    have "create_game game_field players_field gamers_field game_err gamer_err db =
        (if 0 < e then (Status 500 ''Failed to add some gamers'', run_rollback db2)
         else (Json (next_game_id db), run_commit db2))"
      by (simp add: fields False create_game_unfold [OF valid] ins run)
    with stored stored2 saved2 show ?thesis
      by (simp add: run_rollback_def run_commit_def record_stmt_def)
  qed
qed

lemma delete_game_between:
  assumes "saved db = None" "names_trimmed (content db)"
  shows "saved (snd (delete_game gameId gamers_err game_err db)) = None \<and>
     names_trimmed (content (snd (delete_game gameId gamers_err game_err db)))"
  using assms
  by (auto simp: delete_game_def delete_gamers_def delete_game_row_def Let_def
      run_begin_idle run_rollback_def run_commit_def record_stmt_def
      names_trimmed_def list_all_iff)

lemma add_owner_between:
  assumes "saved db = None" "names_trimmed (content db)"
  shows "saved (snd (add_owner gameId gamer_name_field select_err insert_err db)) = None \<and>
     names_trimmed (content (snd (add_owner gameId gamer_name_field select_err insert_err db)))"
  using assms
  by (auto simp: add_owner_def select_gamer_def insert_gamer_def record_stmt_def Let_def
      names_trimmed_def trim_idem split: option.splits list.splits)

lemma remove_owner_between:
  assumes "saved db = None" "names_trimmed (content db)"
  shows "saved (snd (remove_owner gameId gamer_name_field err db)) = None \<and>
     names_trimmed (content (snd (remove_owner gameId gamer_name_field err db)))"
  using assms
  by (auto simp: remove_owner_def delete_gamer_def record_stmt_def Let_def
      names_trimmed_def list_all_iff split: option.splits)

lemma queries_between:
  "content (snd (list_all_games err db)) = content db \<and>
   saved (snd (list_all_games err db)) = saved db \<and>
   content (snd (list_playable playersParam err db)) = content db \<and>
   saved (snd (list_playable playersParam err db)) = saved db"
  by (auto simp: list_all_games_def list_playable_def record_stmt_def Let_def split: option.splits)

lemma reachable_between:
  "reachable db \<Longrightarrow> saved db = None \<and> names_trimmed (content db)"
proof (induction rule: reachable.induct)
  case fresh
  show ?case by (simp add: empty_db_def names_trimmed_def)
next
  case (served db rq)
  then have idle: "saved db = None" and stored: "names_trimmed (content db)" by simp_all
  show ?case
  proof (cases rq)
    case (Get_All err)
    with idle stored queries_between [of err db] show ?thesis by simp
  next
    case (Get_Playable playersParam err)
    with idle stored queries_between [of err db playersParam] show ?thesis by simp
  next
    case (Post_Game game_field players_field gamers_field game_err gamer_err)
    with create_game_between [OF idle stored] show ?thesis by simp
  next
    case (Delete_Game_Route gameId gamers_err game_err)
    with delete_game_between [OF idle stored] show ?thesis by simp
  next
    case (Post_Gamer gameId gamer_name_field select_err insert_err)
    with add_owner_between [OF idle stored] show ?thesis by simp
  next
    case (Delete_Gamer_Route gameId gamer_name_field err)
    with remove_owner_between [OF idle stored] show ?thesis by simp
  qed
qed

text \<open>The databases of the examples are states between requests.\<close>

lemma examples_reachable: "reachable catan_db \<and> reachable example_db \<and> reachable orphan_db \<and> reachable twice_db"
proof -
  have 1: "catan_db = serve (Post_Game (Some ''Catan'') (Some 3) (Some ''Alice,Bob'') False no_err) empty_db"
    by (simp add: catan_db_def)
  have 2: "example_db = serve (Post_Game (Some ''Chess'') (Some 2) (Some ''Carol'') False no_err) catan_db"
    by (simp add: example_db_def)
  have 3: "orphan_db = serve (Post_Gamer 1 (Some ''Zed'') False False) empty_db"
    by (simp add: orphan_db_def)
  have 4: "twice_db = serve (Post_Game (Some ''Catan'') (Some 3) (Some ''Alice,Alice'') False no_err) empty_db"
    by (simp add: twice_db_def)
  have "reachable catan_db" unfolding 1 by (intro reachable.intros)
  moreover then have "reachable example_db" unfolding 2 by (intro reachable.intros)
  moreover have "reachable orphan_db" unfolding 3 by (intro reachable.intros)
  moreover have "reachable twice_db" unfolding 4 by (intro reachable.intros)
  ultimately show ?thesis by simp
qed

end
